theory Spec2Isabelle
  imports Complex_Main "HOL-Library.AList"
begin

section \<open>The multi-task retinal inference engine (backend/oculomics/inference.py)\<close>

subsection \<open>Task registry: \<open>Config.TASKS\<close>\<close>

datatype task_type = Regression | Binary | Multiclass

text \<open>
  \<open>Config.TASKS\<close> is a dict literal \<open>{TaskName: (Type, Num_Classes, Column_Name)}\<close>.
  Python dicts keep insertion order, so the registry is an association list in source order.
\<close>

definition TASKS :: "(string \<times> (task_type \<times> nat \<times> string)) list" where
  "TASKS =
    [(''Age'', (Regression, 1, ''age'')),
     (''Gender'', (Binary, 2, ''sex'')),
     (''Diabetes'', (Binary, 2, ''diabetes'')),
     (''ICDR'', (Multiclass, 5, ''final_icdr'')),
     (''Edema'', (Binary, 2, ''final_edema'')),
     (''Hypertension'', (Binary, 2, ''systemic_hypertension'')),
     (''Cardiovascular_Risk'', (Binary, 2, ''vascular_disease'')),
     (''AMI'', (Binary, 2, ''acute_myocardial_infarction'')),
     (''Neuropathy'', (Binary, 2, ''neuropathy'')),
     (''Nephropathy'', (Binary, 2, ''nephropathy''))]"

text \<open>\<open>Config.TASKS.keys()\<close>, in iteration order.\<close>

definition TASKS_keys :: "string list" where
  "TASKS_keys = map fst TASKS"

definition IMG_SIZE :: nat where
  "IMG_SIZE = 224"

text \<open>
  \<open>Config.CAM_DIR = ARTIFACTS_DIR / "gradcam_inference"\<close>; the artifacts directory is
  written relative to the module's own directory.
\<close>

definition CAM_DIR :: string where
  "CAM_DIR = ''artifacts/gradcam_inference''"

subsection \<open>Exceptions\<close>

text \<open>
  The module defines no exception classes of its own; it raises and catches Python's.
  The spec's taxonomy corresponds to them as follows: \<open>InvalidTaskError\<close> is the
  \<open>ValueError\<close> of \<open>load_model\<close>, \<open>ModelWeightsNotFoundError\<close> is its
  \<open>FileNotFoundError\<close>, \<open>ModelLoadError\<close> is what \<open>torch.load\<close> or
  \<open>load_state_dict\<close> raise on a bad checkpoint, \<open>BackboneUnavailableError\<close> is what
  \<open>ViTModel.from_pretrained\<close> raises, \<open>ImageDecodeError\<close> is what \<open>Image.open\<close> or
  \<open>convert\<close> raise on an unreadable file. All of them are subclasses of \<open>Exception\<close>.
\<close>

datatype exn =
    ValueError string
  | KeyError string
  | FileNotFoundError
  | OSError
  | UnidentifiedImageError
  | RuntimeError

subsection \<open>32-bit floats\<close>

text \<open>
  The network's outputs and everything computed from them are 32-bit floats: a finite
  value, an infinity or NaN. A finite value is a real number here: rounding, the sign of
  zero and the overflow of finite arithmetic to an infinity are not represented. The
  operations below are those the softmax kernel and \<open>np.argmax\<close> use, with the IEEE
  rules for the special values.
\<close>

datatype f32 = Finite real | PosInf | NegInf | NaN

fun f32_sub :: "f32 \<Rightarrow> f32 \<Rightarrow> f32" where
  "f32_sub NaN _ = NaN"
| "f32_sub _ NaN = NaN"
| "f32_sub (Finite a) (Finite b) = Finite (a - b)"
| "f32_sub (Finite a) PosInf = NegInf"
| "f32_sub (Finite a) NegInf = PosInf"
| "f32_sub PosInf PosInf = NaN"
| "f32_sub NegInf NegInf = NaN"
| "f32_sub PosInf _ = PosInf"
| "f32_sub NegInf _ = NegInf"

fun f32_add :: "f32 \<Rightarrow> f32 \<Rightarrow> f32" where
  "f32_add NaN _ = NaN"
| "f32_add _ NaN = NaN"
| "f32_add (Finite a) (Finite b) = Finite (a + b)"
| "f32_add PosInf NegInf = NaN"
| "f32_add NegInf PosInf = NaN"
| "f32_add PosInf _ = PosInf"
| "f32_add _ PosInf = PosInf"
| "f32_add NegInf _ = NegInf"
| "f32_add _ NegInf = NegInf"

fun f32_mul :: "f32 \<Rightarrow> f32 \<Rightarrow> f32" where
  "f32_mul NaN _ = NaN"
| "f32_mul _ NaN = NaN"
| "f32_mul (Finite a) (Finite b) = Finite (a * b)"
| "f32_mul (Finite a) PosInf = (if a = 0 then NaN else if 0 < a then PosInf else NegInf)"
| "f32_mul (Finite a) NegInf = (if a = 0 then NaN else if 0 < a then NegInf else PosInf)"
| "f32_mul PosInf (Finite b) = (if b = 0 then NaN else if 0 < b then PosInf else NegInf)"
| "f32_mul NegInf (Finite b) = (if b = 0 then NaN else if 0 < b then NegInf else PosInf)"
| "f32_mul PosInf PosInf = PosInf"
| "f32_mul NegInf NegInf = PosInf"
| "f32_mul PosInf NegInf = NegInf"
| "f32_mul NegInf PosInf = NegInf"

text \<open>\<open>1 / x\<close>\<close>

fun f32_recip :: "f32 \<Rightarrow> f32" where
  "f32_recip NaN = NaN"
| "f32_recip PosInf = Finite 0"
| "f32_recip NegInf = Finite 0"
| "f32_recip (Finite a) = (if a = 0 then PosInf else Finite (1 / a))"

fun f32_exp :: "f32 \<Rightarrow> f32" where
  "f32_exp NaN = NaN"
| "f32_exp PosInf = PosInf"
| "f32_exp NegInf = Finite 0"
| "f32_exp (Finite a) = Finite (exp a)"

text \<open>The maximum of the kernel's reduction: NaN propagates.\<close>

fun f32_max :: "f32 \<Rightarrow> f32 \<Rightarrow> f32" where
  "f32_max NaN _ = NaN"
| "f32_max _ NaN = NaN"
| "f32_max PosInf _ = PosInf"
| "f32_max _ PosInf = PosInf"
| "f32_max NegInf y = y"
| "f32_max x NegInf = x"
| "f32_max (Finite a) (Finite b) = Finite (max a b)"

text \<open>\<open>x <= y\<close>: false as soon as one side is NaN.\<close>

fun f32_le :: "f32 \<Rightarrow> f32 \<Rightarrow> bool" where
  "f32_le NaN _ = False"
| "f32_le _ NaN = False"
| "f32_le NegInf _ = True"
| "f32_le _ PosInf = True"
| "f32_le (Finite a) (Finite b) = (a \<le> b)"
| "f32_le _ _ = False"


subsection \<open>The world outside the process\<close>

text \<open>
  What a checkpoint path holds: nothing (\<open>ckpt_path.exists()\<close> is false), a file that
  \<open>torch.load\<close> or \<open>load_state_dict\<close> rejects, or a state dict (named by a number).
\<close>

datatype ckpt_file = CkptMissing | CkptCorrupt | CkptWeights nat

text \<open>
  What an image path holds: nothing, bytes that \<open>Image.open\<close> cannot identify, an image
  whose data ends early (\<open>convert('RGB')\<close> fails while loading it), or a decodable image
  (named by a number).
\<close>

datatype image_file = ImgMissing | ImgUnidentified | ImgTruncated | ImgPixels nat

text \<open>The parameters of a classifier: as constructed, or loaded from a state dict.\<close>

datatype params = RandomInit | Trained nat

record world =
  from_pretrained_ok :: bool
  ckpt_files :: "string \<Rightarrow> ckpt_file"
  image_files :: "string \<Rightarrow> image_file"
  net_logit :: "params \<Rightarrow> nat \<Rightarrow> nat \<Rightarrow> f32"
  grad_cam_ok :: "params \<Rightarrow> nat \<Rightarrow> nat option \<Rightarrow> bool"
  path_stem :: "string \<Rightarrow> string"

text \<open>
  \<open>from_pretrained_ok\<close>: whether \<open>ViTModel.from_pretrained\<close> succeeds.
  \<open>net_logit p img j\<close>: component \<open>j\<close> of the network's output on image \<open>img\<close> under
  parameters \<open>p\<close>, a 32-bit float. \<open>grad_cam_ok p img targets\<close>: whether the
  GradCAM++ pass and the overlay go through. \<open>path_stem\<close>: \<open>Path(img_path).stem\<close>.
\<close>

subsection \<open>The API object\<close>

text \<open>
  A \<open>FoundationalCVModelWithClassifier\<close> instance: its own identity, the identity of the
  \<open>FoundationalCVModel\<close> it wraps, the \<open>hidden\<close> width, the width of the final linear
  layer, and its parameters.
\<close>

record loaded_model =
  model_ref :: nat
  backbone_ref :: nat
  hidden :: nat
  num_classes :: nat
  weights :: params

datatype console_line = Skipping string | ErrorRunning string exn

text \<open>
  \<open>models_cache\<close> is the dict of the source. The other fields record what the calls do
  beyond it: \<open>next_ref\<close> numbers the objects constructed so far, \<open>backbones\<close> lists the
  backbone objects built by \<open>ViTModel.from_pretrained\<close>, \<open>torch_loads\<close> the checkpoint
  paths read by \<open>torch.load\<close>, \<open>savefig_calls\<close> the heatmap files written, and
  \<open>console\<close> the two diagnostic lines \<open>run_full_profile\<close> prints in its handlers.
\<close>

record api =
  checkpoint_dir :: string
  models_cache :: "(string \<times> loaded_model) list"
  next_ref :: nat
  backbones :: "nat list"
  torch_loads :: "string list"
  savefig_calls :: "string list"
  console :: "console_line list"

definition OcularInferenceAPI :: "string \<Rightarrow> api" where
  "OcularInferenceAPI cdir =
     \<lparr>checkpoint_dir = cdir, models_cache = [], next_ref = 0, backbones = [],
      torch_loads = [], savefig_calls = [], console = []\<rparr>"

subsection \<open>Model construction and \<open>load_model\<close>\<close>

text \<open>
  \<open>FoundationalCVModel(backbone='vit_base', mode='eval')\<close>: loads the pretrained
  transformer and returns a new object.
\<close>

definition FoundationalCVModel :: "world \<Rightarrow> api \<Rightarrow> (exn + nat) \<times> api" where
  "FoundationalCVModel w s =
     (if from_pretrained_ok w
      then (Inr (next_ref s),
            s\<lparr>next_ref := Suc (next_ref s), backbones := backbones s @ [next_ref s]\<rparr>)
      else (Inl OSError, s))"

definition FoundationalCVModelWithClassifier ::
    "nat \<Rightarrow> nat \<Rightarrow> nat \<Rightarrow> api \<Rightarrow> loaded_model \<times> api" where
  "FoundationalCVModelWithClassifier backbone hid n s =
     (\<lparr>model_ref = next_ref s, backbone_ref = backbone, hidden = hid, num_classes = n,
       weights = RandomInit\<rparr>,
      s\<lparr>next_ref := Suc (next_ref s)\<rparr>)"

definition ckpt_path_of :: "api \<Rightarrow> string \<Rightarrow> string" where
  "ckpt_path_of s task_name = checkpoint_dir s @ ''/best_model_'' @ task_name @ ''.pth''"

definition load_model :: "world \<Rightarrow> api \<Rightarrow> string \<Rightarrow> (exn + loaded_model) \<times> api" where
  "load_model w s task_name =
     (case map_of (models_cache s) task_name of
        Some cached \<Rightarrow> (Inr cached, s)
      | None \<Rightarrow>
          (case map_of TASKS task_name of
             None \<Rightarrow> (Inl (ValueError (''Unknown task: '' @ task_name)), s)
           | Some (_, n, _) \<Rightarrow>
               (case FoundationalCVModel w s of
                  (Inl e, s1) \<Rightarrow> (Inl e, s1)
                | (Inr base_vit, s1) \<Rightarrow>
                    (case FoundationalCVModelWithClassifier base_vit 256 n s1 of
                       (model, s2) \<Rightarrow>
                         (case ckpt_files w (ckpt_path_of s task_name) of
                            CkptMissing \<Rightarrow> (Inl FileNotFoundError, s2)
                          | CkptCorrupt \<Rightarrow>
                              (Inl RuntimeError,
                               s2\<lparr>torch_loads := torch_loads s2 @ [ckpt_path_of s task_name]\<rparr>)
                          | CkptWeights sd \<Rightarrow>
                              (Inr (model\<lparr>weights := Trained sd\<rparr>),
                               s2\<lparr>torch_loads := torch_loads s2 @ [ckpt_path_of s task_name],
                                  models_cache :=
                                    AList.update task_name (model\<lparr>weights := Trained sd\<rparr>)
                                      (models_cache s2)\<rparr>))))))"

text \<open>\<open>preload_all_models\<close>: every failure is caught and printed, the loop goes on.\<close>

definition preload_all_models :: "world \<Rightarrow> api \<Rightarrow> api" where
  "preload_all_models w s = foldl (\<lambda>s' task. snd (load_model w s' task)) s TASKS_keys"

subsection \<open>Decoding a prediction\<close>

text \<open>
  \<open>final_result\<close> is either the float \<open>preds.item()\<close> or the dict
  \<open>{'class': pred_cls, 'probability': pred_prob}\<close>.
\<close>

datatype prediction = Scalar f32 | ClassProb nat f32

text \<open>
  \<open>F.softmax(preds, dim=1)\<close> on a batch of one, as the library's kernel computes it
  along the last dimension: take the maximum, exponentiate the shifted inputs, sum them,
  and scale by the reciprocal of the sum.
\<close>

definition softmax :: "f32 list \<Rightarrow> f32 list" where
  "softmax xs =
     (case xs of
        [] \<Rightarrow> []
      | x # rest \<Rightarrow>
          (let max_input = foldl f32_max x rest;
               tmp = map (\<lambda>y. f32_exp (f32_sub y max_input)) xs;
               tmp_sum = f32_recip (foldl f32_add (Finite 0) tmp)
           in map (\<lambda>e. f32_mul e tmp_sum) tmp))"

text \<open>
  \<open>np.argmax\<close>: the running maximum is replaced by an element that is not \<open><=\<close> it
  (so the first of equal maxima stays, and a NaN takes over), and the scan stops at a
  NaN; an empty array is an error.
\<close>

fun argmax_from :: "nat \<Rightarrow> f32 \<Rightarrow> nat \<Rightarrow> f32 list \<Rightarrow> nat" where
  "argmax_from bi bv i [] = bi"
| "argmax_from bi bv i (x # xs) =
     (if bv = NaN then bi
      else if \<not> f32_le x bv then argmax_from i x (Suc i) xs
      else argmax_from bi bv (Suc i) xs)"

definition np_argmax :: "f32 list \<Rightarrow> exn + nat" where
  "np_argmax xs =
     (case xs of
        [] \<Rightarrow> Inl (ValueError ''attempt to get argmax of an empty sequence'')
      | x # rest \<Rightarrow> Inr (argmax_from 0 x 1 rest))"

text \<open>
  The branch on \<open>task_type\<close> in \<open>predict_and_explain\<close>: the result and
  \<open>target_class_idx\<close>. \<open>preds.item()\<close> needs a tensor of exactly one element.
\<close>

definition decode :: "task_type \<Rightarrow> f32 list \<Rightarrow> exn + (prediction \<times> nat)" where
  "decode tt preds =
     (if tt = Regression
      then (case preds of [v] \<Rightarrow> Inr (Scalar v, 0) | _ \<Rightarrow> Inl RuntimeError)
      else (case np_argmax (softmax preds) of
              Inl e \<Rightarrow> Inl e
            | Inr pred_cls \<Rightarrow>
                Inr (ClassProb pred_cls (softmax preds ! pred_cls), pred_cls)))"

subsection \<open>\<open>predict_and_explain\<close>\<close>

text \<open>\<open>Image.open(img_path).convert('RGB')\<close>.\<close>

definition open_rgb :: "image_file \<Rightarrow> exn + nat" where
  "open_rgb f =
     (case f of
        ImgMissing \<Rightarrow> Inl FileNotFoundError
      | ImgUnidentified \<Rightarrow> Inl UnidentifiedImageError
      | ImgTruncated \<Rightarrow> Inl OSError
      | ImgPixels px \<Rightarrow> Inr px)"

text \<open>The forward pass: the final linear layer has \<open>num_classes\<close> outputs.\<close>

definition model_forward :: "world \<Rightarrow> loaded_model \<Rightarrow> nat \<Rightarrow> f32 list" where
  "model_forward w model img = map (net_logit w (weights model) img) [0..<num_classes model]"

definition cam_save_path :: "world \<Rightarrow> string \<Rightarrow> string \<Rightarrow> string" where
  "cam_save_path w img_path task_name =
     CAM_DIR @ ''/'' @ path_stem w img_path @ ''_'' @ task_name @ ''_cam.png''"

definition predict_and_explain ::
    "world \<Rightarrow> api \<Rightarrow> string \<Rightarrow> string \<Rightarrow> (exn + (prediction \<times> string)) \<times> api" where
  "predict_and_explain w s img_path task_name =
     (case load_model w s task_name of
        (Inl e, s1) \<Rightarrow> (Inl e, s1)
      | (Inr model, s1) \<Rightarrow>
          (case map_of TASKS task_name of
             None \<Rightarrow> (Inl (KeyError task_name), s1)
           | Some (tt, _, _) \<Rightarrow>
               (case open_rgb (image_files w img_path) of
                  Inl e \<Rightarrow> (Inl e, s1)
                | Inr img \<Rightarrow>
                    (case decode tt (model_forward w model img) of
                       Inl e \<Rightarrow> (Inl e, s1)
                     | Inr (final_result, target_class_idx) \<Rightarrow>
                         (if grad_cam_ok w (weights model) img
                               (if tt \<noteq> Regression then Some target_class_idx else None)
                          then (Inr (final_result, cam_save_path w img_path task_name),
                                s1\<lparr>savefig_calls :=
                                     savefig_calls s1 @ [cam_save_path w img_path task_name]\<rparr>)
                          else (Inl RuntimeError, s1))))))"

subsection \<open>\<open>run_full_profile\<close>\<close>

text \<open>The values of a result entry: a prediction or a path string.\<close>

datatype pyval = Prediction prediction | PathStr string

type_synonym results = "(string \<times> (string \<times> pyval) list) list"

text \<open>
  One iteration of the loop: the \<open>try\<close> body, then the two handlers in source order.
  \<open>except Exception\<close> takes whatever \<open>except FileNotFoundError\<close> does not.
\<close>

definition profile_step :: "world \<Rightarrow> string \<Rightarrow> results \<times> api \<Rightarrow> string \<Rightarrow> results \<times> api" where
  "profile_step w img_path acc task =
     (case acc of
        (res, s) \<Rightarrow>
          (case predict_and_explain w s img_path task of
             (Inr (pred, map_path), s1) \<Rightarrow>
               (AList.update task
                  [(''prediction'', Prediction pred), (''attention_map'', PathStr map_path)] res,
                s1)
           | (Inl e, s1) \<Rightarrow>
               (if e = FileNotFoundError
                then (res, s1\<lparr>console := console s1 @ [Skipping task]\<rparr>)
                else (res, s1\<lparr>console := console s1 @ [ErrorRunning task e]\<rparr>))))"

text \<open>
  The function returns its dict (\<open>Inr\<close>); it has no statement that raises outside the
  \<open>try\<close>.
\<close>

definition run_full_profile :: "world \<Rightarrow> api \<Rightarrow> string \<Rightarrow> (exn + results) \<times> api" where
  "run_full_profile w s img_path =
     (case foldl (profile_step w img_path) ([], s) TASKS_keys of
        (res, s') \<Rightarrow> (Inr res, s'))"

subsection \<open>States the API object can be in\<close>

inductive reachable :: "api \<Rightarrow> bool" where
  init: "reachable (OcularInferenceAPI cdir)"
| load: "reachable s \<Longrightarrow> reachable (snd (load_model w s task_name))"
| preload: "reachable s \<Longrightarrow> reachable (preload_all_models w s)"
| predict: "reachable s \<Longrightarrow> reachable (snd (predict_and_explain w s img_path task_name))"
| profile: "reachable s \<Longrightarrow> reachable (snd (run_full_profile w s img_path))"

subsection \<open>\<open>reshape_transform_vit\<close>\<close>

text \<open>
  A tensor of rank 3 or 4: its sizes and its element at an index. \<open>reshape\<close> keeps the
  row-major order of the elements and fails when the element counts differ;
  \<open>transpose\<close> swaps two axes.
\<close>

record tensor3 =
  size0 :: nat
  size1 :: nat
  size2 :: nat
  at3 :: "nat \<Rightarrow> nat \<Rightarrow> nat \<Rightarrow> real"

record tensor4 =
  dim0 :: nat
  dim1 :: nat
  dim2 :: nat
  dim3 :: nat
  at4 :: "nat \<Rightarrow> nat \<Rightarrow> nat \<Rightarrow> nat \<Rightarrow> real"

text \<open>\<open>tensor[:, 1:, :]\<close>\<close>

definition slice_from1 :: "tensor3 \<Rightarrow> tensor3" where
  "slice_from1 t =
     \<lparr>size0 = size0 t, size1 = size1 t - 1, size2 = size2 t,
      at3 = (\<lambda>b i c. at3 t b (Suc i) c)\<rparr>"

text \<open>\<open>.reshape(a, b, c, d)\<close>\<close>

definition reshape4 :: "tensor3 \<Rightarrow> nat \<Rightarrow> nat \<Rightarrow> nat \<Rightarrow> nat \<Rightarrow> exn + tensor4" where
  "reshape4 t a b c d =
     (if size0 t * size1 t * size2 t \<noteq> a * b * c * d then Inl RuntimeError
      else Inr \<lparr>dim0 = a, dim1 = b, dim2 = c, dim3 = d,
                at4 = (\<lambda>i j k l.
                  (let off = ((i * b + j) * c + k) * d + l
                   in at3 t (off div (size1 t * size2 t))
                        (off div size2 t mod size1 t) (off mod size2 t)))\<rparr>)"

text \<open>\<open>.transpose(2, 3)\<close> and \<open>.transpose(1, 2)\<close>\<close>

definition transpose_2_3 :: "tensor4 \<Rightarrow> tensor4" where
  "transpose_2_3 t =
     \<lparr>dim0 = dim0 t, dim1 = dim1 t, dim2 = dim3 t, dim3 = dim2 t,
      at4 = (\<lambda>i j k l. at4 t i j l k)\<rparr>"

definition transpose_1_2 :: "tensor4 \<Rightarrow> tensor4" where
  "transpose_1_2 t =
     \<lparr>dim0 = dim0 t, dim1 = dim2 t, dim2 = dim1 t, dim3 = dim3 t,
      at4 = (\<lambda>i j k l. at4 t i k j l)\<rparr>"

definition reshape_transform_vit :: "tensor3 \<Rightarrow> nat \<Rightarrow> nat \<Rightarrow> exn + tensor4" where
  "reshape_transform_vit t height width =
     (case reshape4 (slice_from1 t) (size0 t) height width (size2 t) of
        Inl e \<Rightarrow> Inl e
      | Inr r \<Rightarrow> Inr (transpose_1_2 (transpose_2_3 r)))"

text \<open>
  The call GradCAM++ makes: \<open>reshape_transform(activations)\<close>, one argument, so
  \<open>height\<close> and \<open>width\<close> take their defaults.
\<close>

definition reshape_transform_vit_default :: "tensor3 \<Rightarrow> exn + tensor4" where
  "reshape_transform_vit_default t = reshape_transform_vit t 14 14"

subsection \<open>Auxiliary notions for the statements below\<close>

text \<open>
  What holds of the cache in every reachable state: one entry per key; each key is a
  registered task whose registry width is the width of the cached head; each cached model
  wraps a backbone object that was built, and no two wrap the same one.
\<close>

definition api_inv :: "api \<Rightarrow> bool" where
  "api_inv s \<longleftrightarrow>
     distinct (map fst (models_cache s)) \<and>
     distinct (map (\<lambda>e. backbone_ref (snd e)) (models_cache s)) \<and>
     (\<forall>e \<in> set (models_cache s).
        (\<exists>tt col. map_of TASKS (fst e) = Some (tt, num_classes (snd e), col)) \<and>
        backbone_ref (snd e) \<in> set (backbones s)) \<and>
     (\<forall>b \<in> set (backbones s). b < next_ref s)"

text \<open>
  How \<open>predict_and_explain\<close> ends for a task, and what the iteration of
  \<open>run_full_profile\<close> then does: the entry it stores, the line it prints, the file
  that was written.
\<close>

definition task_outcome :: "world \<Rightarrow> api \<Rightarrow> string \<Rightarrow> string \<Rightarrow> exn + (prediction \<times> string)" where
  "task_outcome w s img_path task = fst (predict_and_explain w s img_path task)"

text \<open>The same outcome, read off the model that \<open>load_model\<close> returned.\<close>

definition outcome_with :: "world \<Rightarrow> string \<Rightarrow> string \<Rightarrow> loaded_model \<Rightarrow> exn + (prediction \<times> string)" where
  "outcome_with w img_path task model =
     (case map_of TASKS task of
        None \<Rightarrow> Inl (KeyError task)
      | Some (tt, _, _) \<Rightarrow>
          (case open_rgb (image_files w img_path) of
             Inl e \<Rightarrow> Inl e
           | Inr img \<Rightarrow>
               (case decode tt (model_forward w model img) of
                  Inl e \<Rightarrow> Inl e
                | Inr (final_result, target_class_idx) \<Rightarrow>
                    (if grad_cam_ok w (weights model) img
                          (if tt \<noteq> Regression then Some target_class_idx else None)
                     then Inr (final_result, cam_save_path w img_path task)
                     else Inl RuntimeError))))"

definition task_succeeds :: "world \<Rightarrow> api \<Rightarrow> string \<Rightarrow> string \<Rightarrow> bool" where
  "task_succeeds w s img_path task =
     (case task_outcome w s img_path task of Inr _ \<Rightarrow> True | Inl _ \<Rightarrow> False)"

definition entries_of :: "string \<Rightarrow> exn + (prediction \<times> string) \<Rightarrow> results" where
  "entries_of task outcome =
     (case outcome of
        Inr (pred, map_path) \<Rightarrow>
          [(task, [(''prediction'', Prediction pred), (''attention_map'', PathStr map_path)])]
      | Inl _ \<Rightarrow> [])"

definition report_of :: "string \<Rightarrow> exn + (prediction \<times> string) \<Rightarrow> console_line list" where
  "report_of task outcome =
     (case outcome of
        Inr _ \<Rightarrow> []
      | Inl e \<Rightarrow> (if e = FileNotFoundError then [Skipping task] else [ErrorRunning task e]))"

definition files_of :: "exn + (prediction \<times> string) \<Rightarrow> string list" where
  "files_of outcome = (case outcome of Inr (_, map_path) \<Rightarrow> [map_path] | Inl _ \<Rightarrow> [])"

text \<open>
  The softmax of a vector of real numbers, as the spec's word names it; the kernel
  above is compared with it on finite logits.
\<close>

definition softmax_real :: "real list \<Rightarrow> real list" where
  "softmax_real xs = map (\<lambda>x. exp x / sum_list (map exp xs)) xs"

text \<open>
  Concrete worlds for the examples: every checkpoint present and loadable, every image
  decodable, output \<open>j\<close> of the network equal to \<open>j\<close>.
\<close>

definition demo_world :: world where
  "demo_world =
     \<lparr>from_pretrained_ok = True, ckpt_files = (\<lambda>_. CkptWeights 0),
      image_files = (\<lambda>_. ImgPixels 0), net_logit = (\<lambda>_ _ j. Finite (real j)),
      grad_cam_ok = (\<lambda>_ _ _. True), path_stem = (\<lambda>_. ''scan'')\<rparr>"

definition demo_world_unreadable :: world where
  "demo_world_unreadable = demo_world\<lparr>image_files := (\<lambda>_. ImgUnidentified)\<rparr>"

definition demo_world_no_image :: world where
  "demo_world_no_image = demo_world\<lparr>image_files := (\<lambda>_. ImgMissing)\<rparr>"

definition demo_world_no_ckpt :: world where
  "demo_world_no_ckpt = demo_world\<lparr>ckpt_files := (\<lambda>_. CkptMissing)\<rparr>"

definition demo_api :: api where
  "demo_api = OcularInferenceAPI ''artifacts''"

text \<open>The model and the API object after \<open>load_model('Age')\<close> on a fresh object.\<close>

definition demo_model_Age :: loaded_model where
  "demo_model_Age =
     \<lparr>model_ref = 1, backbone_ref = 0, hidden = 256, num_classes = 1, weights = Trained 0\<rparr>"

definition demo_api_Age :: api where
  "demo_api_Age =
     \<lparr>checkpoint_dir = ''artifacts'', models_cache = [(''Age'', demo_model_Age)],
      next_ref = 2, backbones = [0], torch_loads = [''artifacts/best_model_Age.pth''],
      savefig_calls = [], console = []\<rparr>"

text \<open>A one-batch, one-channel activation tensor with five tokens; element = token index.\<close>

definition demo_tokens5 :: tensor3 where
  "demo_tokens5 = \<lparr>size0 = 1, size1 = 5, size2 = 1, at3 = (\<lambda>b i c. real i)\<rparr>"

section \<open>Properties\<close>

subsection \<open>The cases of \<open>load_model\<close>\<close>

lemmas load_defs = load_model_def FoundationalCVModel_def FoundationalCVModelWithClassifier_def

lemma load_model_cached:
  "map_of (models_cache s) t = Some m \<Longrightarrow> load_model w s t = (Inr m, s)"
  by (simp add: load_model_def)

lemma load_model_unknown:
  "map_of (models_cache s) t = None \<Longrightarrow> map_of TASKS t = None \<Longrightarrow>
   load_model w s t = (Inl (ValueError (''Unknown task: '' @ t)), s)"
  by (simp add: load_model_def)

lemma load_model_no_backbone:
  "map_of (models_cache s) t = None \<Longrightarrow> map_of TASKS t = Some info \<Longrightarrow>
   \<not> from_pretrained_ok w \<Longrightarrow> load_model w s t = (Inl OSError, s)"
  by (cases info) (simp add: load_defs)

lemma load_model_missing:
  "map_of (models_cache s) t = None \<Longrightarrow> map_of TASKS t = Some info \<Longrightarrow>
   from_pretrained_ok w \<Longrightarrow> ckpt_files w (ckpt_path_of s t) = CkptMissing \<Longrightarrow>
   load_model w s t =
     (Inl FileNotFoundError,
      s\<lparr>next_ref := Suc (Suc (next_ref s)), backbones := backbones s @ [next_ref s]\<rparr>)"
  by (cases info) (simp add: load_defs)

lemma load_model_corrupt:
  "map_of (models_cache s) t = None \<Longrightarrow> map_of TASKS t = Some info \<Longrightarrow>
   from_pretrained_ok w \<Longrightarrow> ckpt_files w (ckpt_path_of s t) = CkptCorrupt \<Longrightarrow>
   load_model w s t =
     (Inl RuntimeError,
      s\<lparr>next_ref := Suc (Suc (next_ref s)), backbones := backbones s @ [next_ref s],
        torch_loads := torch_loads s @ [ckpt_path_of s t]\<rparr>)"
  by (cases info) (simp add: load_defs)

lemma load_model_fresh:
  "map_of (models_cache s) t = None \<Longrightarrow> map_of TASKS t = Some (tt, n, col) \<Longrightarrow>
   from_pretrained_ok w \<Longrightarrow> ckpt_files w (ckpt_path_of s t) = CkptWeights sd \<Longrightarrow>
   load_model w s t =
     (Inr \<lparr>model_ref = Suc (next_ref s), backbone_ref = next_ref s, hidden = 256,
           num_classes = n, weights = Trained sd\<rparr>,
      s\<lparr>next_ref := Suc (Suc (next_ref s)), backbones := backbones s @ [next_ref s],
        torch_loads := torch_loads s @ [ckpt_path_of s t],
        models_cache := AList.update t
           \<lparr>model_ref = Suc (next_ref s), backbone_ref = next_ref s, hidden = 256,
             num_classes = n, weights = Trained sd\<rparr> (models_cache s)\<rparr>)"
  by (simp add: load_defs)

text \<open>Every call falls in one of the six cases.\<close>

lemma load_model_cases:
  obtains (hit) m where "map_of (models_cache s) t = Some m"
  | (unknown) "map_of (models_cache s) t = None" "map_of TASKS t = None"
  | (nobb) info where "map_of (models_cache s) t = None" "map_of TASKS t = Some info" "\<not> from_pretrained_ok w"
  | (missing) info where "map_of (models_cache s) t = None" "map_of TASKS t = Some info" "from_pretrained_ok w"
       "ckpt_files w (ckpt_path_of s t) = CkptMissing"
  | (corrupt) info where "map_of (models_cache s) t = None" "map_of TASKS t = Some info" "from_pretrained_ok w"
       "ckpt_files w (ckpt_path_of s t) = CkptCorrupt"
  | (fresh) tt n col sd where "map_of (models_cache s) t = None" "map_of TASKS t = Some (tt, n, col)" "from_pretrained_ok w"
       "ckpt_files w (ckpt_path_of s t) = CkptWeights sd"
proof (cases "map_of (models_cache s) t")
  case (Some m) then show ?thesis using hit by blast
next
  case None
  show ?thesis
  proof (cases "map_of TASKS t")
    case N2: None then show ?thesis using unknown None by blast
  next
    case (Some info)
    show ?thesis
    proof (cases "from_pretrained_ok w")
      case False then show ?thesis using nobb None Some by blast
    next
      case True
      obtain tt n col where info: "info = (tt, n, col)" by (cases info) auto
      show ?thesis
        by (cases "ckpt_files w (ckpt_path_of s t)")
           (use missing corrupt fresh None Some True info in blast)+
    qed
  qed
qed

lemma update_fresh: "map_of al k = None \<Longrightarrow> AList.update k v al = al @ [(k, v)]"
  by (induction al) (auto split: if_splits)

lemma api_inv_savefig [simp]: "api_inv (s\<lparr>savefig_calls := x\<rparr>) = api_inv s"
  by (simp add: api_inv_def)

lemma api_inv_console [simp]: "api_inv (s\<lparr>console := x\<rparr>) = api_inv s"
  by (simp add: api_inv_def)

lemma api_inv_init: "api_inv (OcularInferenceAPI cdir)"
  by (simp add: api_inv_def OcularInferenceAPI_def)

lemma map_of_None_notin: "map_of al k = None \<Longrightarrow> k \<notin> fst ` set al"
  by (simp add: map_of_eq_None_iff)

lemma load_model_inv:
  assumes inv: "api_inv s"
  shows "api_inv (snd (load_model w s t))"
proof (cases rule: load_model_cases[where s=s and t=t and w=w])
  case (hit m) then show ?thesis using inv by (simp add: load_model_cached)
next
  case unknown then show ?thesis using inv by (simp add: load_model_unknown)
next
  case (nobb info) then show ?thesis using inv by (simp add: load_model_no_backbone)
next
  case (missing info)
  show ?thesis
    unfolding load_model_missing[OF missing] using inv by (auto simp: api_inv_def less_Suc_eq)
next
  case (corrupt info)
  show ?thesis
    unfolding load_model_corrupt[OF corrupt] using inv by (auto simp: api_inv_def less_Suc_eq)
next
  case (fresh tt n col sd)
  have notin: "t \<notin> fst ` set (models_cache s)"
    using fresh(1) by (rule map_of_None_notin)
  have nr: "next_ref s \<notin> (\<lambda>e. backbone_ref (snd e)) ` set (models_cache s)"
  proof
    assume "next_ref s \<in> (\<lambda>e. backbone_ref (snd e)) ` set (models_cache s)"
    then obtain e where e: "e \<in> set (models_cache s)" "next_ref s = backbone_ref (snd e)"
      by blast
    from inv e(1) have "backbone_ref (snd e) \<in> set (backbones s)"
      unfolding api_inv_def by blast
    moreover from inv have "\<forall>b \<in> set (backbones s). b < next_ref s"
      unfolding api_inv_def by blast
    ultimately show False using e(2) by auto
  qed
  show ?thesis
    unfolding load_model_fresh[OF fresh] using inv notin nr fresh(2)
    by (auto simp: api_inv_def update_fresh[OF fresh(1)] less_Suc_eq)
qed

subsection \<open>What \<open>load_model\<close> leaves alone\<close>

lemma load_model_checkpoint_dir [simp]:
  "checkpoint_dir (snd (load_model w s t)) = checkpoint_dir s"
  by (cases rule: load_model_cases[where s=s and t=t and w=w])
     (simp_all add: load_model_cached load_model_unknown load_model_no_backbone
        load_model_missing load_model_corrupt load_model_fresh)

lemma load_model_savefig [simp]:
  "savefig_calls (snd (load_model w s t)) = savefig_calls s"
  by (cases rule: load_model_cases[where s=s and t=t and w=w])
     (simp_all add: load_model_cached load_model_unknown load_model_no_backbone
        load_model_missing load_model_corrupt load_model_fresh)

lemma load_model_console [simp]:
  "console (snd (load_model w s t)) = console s"
  by (cases rule: load_model_cases[where s=s and t=t and w=w])
     (simp_all add: load_model_cached load_model_unknown load_model_no_backbone
        load_model_missing load_model_corrupt load_model_fresh)

lemma load_model_other:
  "t' \<noteq> t \<Longrightarrow> map_of (models_cache (snd (load_model w s t))) t' = map_of (models_cache s) t'"
  by (cases rule: load_model_cases[where s=s and t=t and w=w])
     (simp_all add: load_model_cached load_model_unknown load_model_no_backbone
        load_model_missing load_model_corrupt load_model_fresh update_conv')

lemma load_model_Inl_cache:
  "fst (load_model w s t) = Inl e \<Longrightarrow> models_cache (snd (load_model w s t)) = models_cache s"
  by (cases rule: load_model_cases[where s=s and t=t and w=w])
     (simp_all add: load_model_cached load_model_unknown load_model_no_backbone
        load_model_missing load_model_corrupt load_model_fresh)

subsection \<open>\<open>predict_and_explain\<close>: state and outcome\<close>

lemma predict_and_explain_state:
  "snd (predict_and_explain w s p t) =
     (snd (load_model w s t))\<lparr>savefig_calls :=
        savefig_calls s @ files_of (task_outcome w s p t)\<rparr>"
  by (cases "load_model w s t")
     (auto simp: predict_and_explain_def task_outcome_def files_of_def
        split: sum.splits option.splits prod.splits
        dest: arg_cong[where f="\<lambda>x. savefig_calls (snd x)"])

lemma predict_and_explain_path:
  "predict_and_explain w s p t = (Inr (pred, path), s') \<Longrightarrow> path = cam_save_path w p t"
  by (auto simp: predict_and_explain_def split: sum.splits option.splits prod.splits if_splits)

lemma task_outcome_eq:
  "task_outcome w s p t =
     (case fst (load_model w s t) of Inl e \<Rightarrow> Inl e | Inr m \<Rightarrow> outcome_with w p t m)"
  by (cases "load_model w s t")
     (auto simp: predict_and_explain_def task_outcome_def outcome_with_def
        split: sum.splits option.splits prod.splits)

lemma outcome_with_cong:
  assumes n: "num_classes m = num_classes m'" and ws: "weights m = weights m'"
  shows "outcome_with w p t m = outcome_with w p t m'"
proof -
  have f: "model_forward w m = model_forward w m'"
    by (rule ext) (simp add: model_forward_def n ws)
  show ?thesis unfolding outcome_with_def f ws ..
qed

lemma task_outcome_cong:
  assumes c: "map_of (models_cache s) t = map_of (models_cache s') t"
    and d: "checkpoint_dir s = checkpoint_dir s'"
  shows "task_outcome w s p t = task_outcome w s' p t"
proof -
  have p: "ckpt_path_of s' t = ckpt_path_of s t" using d by (simp add: ckpt_path_of_def)
  show ?thesis
  proof (cases rule: load_model_cases[where s=s and t=t and w=w])
    case (hit m)
    then show ?thesis using c by (simp add: task_outcome_eq load_model_cached)
  next
    case unknown
    then show ?thesis using c by (simp add: task_outcome_eq load_model_unknown)
  next
    case (nobb info)
    then show ?thesis using c by (simp add: task_outcome_eq load_model_no_backbone)
  next
    case (missing info)
    then show ?thesis using c p by (simp add: task_outcome_eq load_model_missing)
  next
    case (corrupt info)
    then show ?thesis using c p by (simp add: task_outcome_eq load_model_corrupt)
  next
    case (fresh tt n col sd)
    then show ?thesis using c p
      by (simp add: task_outcome_eq load_model_fresh outcome_with_cong)
  qed
qed

subsection \<open>The loop of \<open>run_full_profile\<close>\<close>

lemma profile_step_snd:
  "snd (profile_step w p (res, s) t) =
     (snd (load_model w s t))
       \<lparr>savefig_calls := savefig_calls s @ files_of (task_outcome w s p t),
        console := console s @ report_of t (task_outcome w s p t)\<rparr>"
proof (cases "predict_and_explain w s p t")
  case (Pair out s1)
  have o: "task_outcome w s p t = out" using Pair by (simp add: task_outcome_def)
  have s1: "s1 = (snd (load_model w s t))\<lparr>savefig_calls :=
        savefig_calls s @ files_of out\<rparr>"
    using predict_and_explain_state[of w s p t] Pair o by simp
  show ?thesis
    by (cases out) (auto simp: profile_step_def Pair o s1 report_of_def split: prod.splits)
qed

lemma profile_step_fst:
  assumes "map_of res t = None"
  shows "fst (profile_step w p (res, s) t) = res @ entries_of t (task_outcome w s p t)"
proof (cases "predict_and_explain w s p t")
  case (Pair out s1)
  have o: "task_outcome w s p t = out" using Pair by (simp add: task_outcome_def)
  show ?thesis
    by (cases out)
       (auto simp: profile_step_def Pair o entries_of_def update_fresh[OF assms] split: prod.splits)
qed

lemma map_of_entries_of: "t' \<noteq> t \<Longrightarrow> map_of (entries_of t out) t' = None"
  by (auto simp: entries_of_def split: sum.splits)

lemma profile_fold:
  assumes "distinct ts" and "\<forall>t \<in> set ts. map_of res t = None"
  shows "fst (foldl (profile_step w p) (res, s) ts) =
           res @ concat (map (\<lambda>t. entries_of t (task_outcome w s p t)) ts) \<and>
         savefig_calls (snd (foldl (profile_step w p) (res, s) ts)) =
           savefig_calls s @ concat (map (\<lambda>t. files_of (task_outcome w s p t)) ts) \<and>
         console (snd (foldl (profile_step w p) (res, s) ts)) =
           console s @ concat (map (\<lambda>t. report_of t (task_outcome w s p t)) ts)"
  using assms
proof (induction ts arbitrary: res s)
  case Nil
  then show ?case by simp
next
  case (Cons t ts)
  obtain res1 s1 where step: "profile_step w p (res, s) t = (res1, s1)"
    by (cases "profile_step w p (res, s) t")
  have res1: "res1 = res @ entries_of t (task_outcome w s p t)"
    using profile_step_fst[of res t w p s] Cons.prems step by simp
  have s1: "s1 = (snd (load_model w s t))
       \<lparr>savefig_calls := savefig_calls s @ files_of (task_outcome w s p t),
        console := console s @ report_of t (task_outcome w s p t)\<rparr>"
    using profile_step_snd[of w p res s t] step by simp
  have same: "task_outcome w s1 p t' = task_outcome w s p t'" if "t' \<in> set ts" for t'
  proof (rule task_outcome_cong)
    from that Cons.prems(1) have "t' \<noteq> t" by auto
    then show "map_of (models_cache s1) t' = map_of (models_cache s) t'"
      by (simp add: s1 load_model_other)
    show "checkpoint_dir s1 = checkpoint_dir s" by (simp add: s1)
  qed
  have fresh: "\<forall>t' \<in> set ts. map_of res1 t' = None"
  proof
    fix t' assume t': "t' \<in> set ts"
    with Cons.prems(1) have "t' \<noteq> t" by auto
    then show "map_of res1 t' = None"
      using Cons.prems(2) t' by (simp add: res1 map_add_def map_of_entries_of)
  qed
  have d: "distinct ts" using Cons.prems(1) by simp
  have e1: "map (\<lambda>t. entries_of t (task_outcome w s1 p t)) ts =
            map (\<lambda>t. entries_of t (task_outcome w s p t)) ts"
    by (rule map_cong) (simp_all add: same)
  have e2: "map (\<lambda>t. files_of (task_outcome w s1 p t)) ts =
            map (\<lambda>t. files_of (task_outcome w s p t)) ts"
    by (rule map_cong) (simp_all add: same)
  have e3: "map (\<lambda>t. report_of t (task_outcome w s1 p t)) ts =
            map (\<lambda>t. report_of t (task_outcome w s p t)) ts"
    by (rule map_cong) (simp_all add: same)
  show ?case
    using Cons.IH[OF d fresh, of s1]
    by (simp add: step e1 e2 e3 res1) (simp add: s1)
qed

lemma distinct_TASKS_keys: "distinct TASKS_keys"
  by (simp add: TASKS_keys_def TASKS_def)

lemma run_full_profile_eq:
  "fst (run_full_profile w s p) =
     Inr (concat (map (\<lambda>t. entries_of t (task_outcome w s p t)) TASKS_keys))"
  "savefig_calls (snd (run_full_profile w s p)) =
     savefig_calls s @ concat (map (\<lambda>t. files_of (task_outcome w s p t)) TASKS_keys)"
  "console (snd (run_full_profile w s p)) =
     console s @ concat (map (\<lambda>t. report_of t (task_outcome w s p t)) TASKS_keys)"
  using profile_fold[OF distinct_TASKS_keys, of "[]" w p s]
  by (simp_all add: run_full_profile_def case_prod_beta)

subsection \<open>Reachable states keep the cache well formed\<close>

lemma predict_and_explain_inv: "api_inv s \<Longrightarrow> api_inv (snd (predict_and_explain w s p t))"
  by (simp add: predict_and_explain_state load_model_inv)

lemma profile_step_inv: "api_inv (snd acc) \<Longrightarrow> api_inv (snd (profile_step w p acc t))"
  by (cases acc) (simp add: profile_step_snd load_model_inv)

lemma profile_fold_inv:
  "api_inv (snd acc) \<Longrightarrow> api_inv (snd (foldl (profile_step w p) acc ts))"
  by (induction ts arbitrary: acc) (simp_all add: profile_step_inv)

lemma run_full_profile_inv: "api_inv s \<Longrightarrow> api_inv (snd (run_full_profile w s p))"
  using profile_fold_inv[of "([], s)" w p TASKS_keys]
  by (simp add: run_full_profile_def case_prod_beta)

lemma preload_fold_inv:
  "api_inv s \<Longrightarrow> api_inv (foldl (\<lambda>s' task. snd (load_model w s' task)) s ts)"
  by (induction ts arbitrary: s) (simp_all add: load_model_inv)

lemma reachable_inv: "reachable s \<Longrightarrow> api_inv s"
proof (induction rule: reachable.induct)
  case (init cdir) show ?case by (rule api_inv_init)
next
  case (load s w task_name) then show ?case by (simp add: load_model_inv)
next
  case (preload s w) then show ?case by (simp add: preload_all_models_def preload_fold_inv)
next
  case (predict s w img_path task_name) then show ?case by (simp add: predict_and_explain_inv)
next
  case (profile s w img_path) then show ?case by (simp add: run_full_profile_inv)
qed

lemma inv_cached_registered:
  assumes "api_inv s" and "map_of (models_cache s) t = Some m"
  shows "\<exists>tt col. map_of TASKS t = Some (tt, num_classes m, col)"
proof -
  from assms(2) have "(t, m) \<in> set (models_cache s)" by (rule map_of_SomeD)
  with assms(1) show ?thesis unfolding api_inv_def by fastforce
qed

lemma inv_unknown_uncached:
  "api_inv s \<Longrightarrow> map_of TASKS t = None \<Longrightarrow> map_of (models_cache s) t = None"
  using inv_cached_registered[of s t] by (cases "map_of (models_cache s) t") auto

subsection \<open>What the returned mapping holds\<close>

lemma keys_entries:
  "map fst (concat (map (\<lambda>t. entries_of t (out t)) ts)) =
     filter (\<lambda>t. case out t of Inr _ \<Rightarrow> True | Inl _ \<Rightarrow> False) ts"
  by (induction ts) (auto simp: entries_of_def split: sum.splits)

lemma run_full_profile_keys:
  "map fst (concat (map (\<lambda>t. entries_of t (task_outcome w s p t)) TASKS_keys)) =
     filter (task_succeeds w s p) TASKS_keys"
  unfolding task_succeeds_def by (rule keys_entries)

lemma entries_member:
  "(t, entry) \<in> set (concat (map (\<lambda>t. entries_of t (out t)) ts)) \<longleftrightarrow>
     t \<in> set ts \<and> (\<exists>pred path. out t = Inr (pred, path) \<and>
        entry = [(''prediction'', Prediction pred), (''attention_map'', PathStr path)])"
  by (induction ts) (auto simp: entries_of_def split: sum.splits)

lemma files_member:
  "t \<in> set ts \<Longrightarrow> out t = Inr (pred, path) \<Longrightarrow>
   path \<in> set (concat (map (\<lambda>t. files_of (out t)) ts))"
  by (induction ts) (auto simp: files_of_def split: sum.splits)

lemma task_outcome_path:
  "task_outcome w s p t = Inr (pred, path) \<Longrightarrow> path = cam_save_path w p t"
  using predict_and_explain_path[of w s p t pred path "snd (predict_and_explain w s p t)"]
  by (simp add: task_outcome_def) (metis prod.collapse)

lemma outcome_with_bad_image:
  "open_rgb (image_files w p) = Inl e \<Longrightarrow>
   outcome_with w p t m = (case map_of TASKS t of None \<Rightarrow> Inl (KeyError t) | Some _ \<Rightarrow> Inl e)"
  by (auto simp: outcome_with_def split: option.splits)

lemma task_outcome_bad_image:
  assumes "open_rgb (image_files w p) = Inl e"
  shows "\<exists>e'. task_outcome w s p t = Inl e'"
  by (cases "fst (load_model w s t)"; cases "map_of TASKS t")
     (simp_all add: task_outcome_eq outcome_with_bad_image[OF assms])

lemma bad_image_no_entries:
  assumes "open_rgb (image_files w p) = Inl e"
  shows "concat (map (\<lambda>t. entries_of t (task_outcome w s p t)) ts) = [] \<and>
         concat (map (\<lambda>t. files_of (task_outcome w s p t)) ts) = []"
proof -
  have "entries_of t (task_outcome w s p t) = [] \<and> files_of (task_outcome w s p t) = []" for t
    using task_outcome_bad_image[OF assms, of s t]
    by (auto simp: entries_of_def files_of_def)
  then show ?thesis by simp
qed

lemma run_full_profile_bad_image:
  assumes "open_rgb (image_files w p) = Inl e"
  shows "fst (run_full_profile w s p) = Inr []"
    and "savefig_calls (snd (run_full_profile w s p)) = savefig_calls s"
  using bad_image_no_entries[OF assms, of s TASKS_keys]
  by (simp_all add: run_full_profile_eq)

subsection \<open>A worked example\<close>

lemma demo_load_Age:
  "load_model demo_world demo_api ''Age'' = (Inr demo_model_Age, demo_api_Age)"
  by (simp add: load_defs demo_world_def demo_api_def OcularInferenceAPI_def TASKS_def
        ckpt_path_of_def demo_model_Age_def demo_api_Age_def)

lemma demo_outcome_Age:
  "task_outcome demo_world demo_api ''scan.jpg'' ''Age'' =
     Inr (Scalar (Finite 0), ''artifacts/gradcam_inference/scan_Age_cam.png'')"
proof -
  have "task_outcome demo_world demo_api ''scan.jpg'' ''Age'' =
          outcome_with demo_world ''scan.jpg'' ''Age'' demo_model_Age"
    by (simp add: task_outcome_eq demo_load_Age)
  also have "\<dots> = Inr (Scalar (Finite 0), ''artifacts/gradcam_inference/scan_Age_cam.png'')"
    by (simp add: outcome_with_def TASKS_def open_rgb_def demo_world_def decode_def
          model_forward_def demo_model_Age_def cam_save_path_def CAM_DIR_def)
  finally show ?thesis .
qed

lemma Age_registered: "''Age'' \<in> set TASKS_keys"
  by (simp add: TASKS_keys_def TASKS_def)

subsection \<open>A missing checkpoint\<close>

lemma registered_iff: "t \<in> set TASKS_keys \<longleftrightarrow> map_of TASKS t \<noteq> None"
  by (simp add: TASKS_keys_def map_of_eq_None_iff)

lemma missing_ckpt_cache:
  assumes "ckpt_files w (ckpt_path_of s t) = CkptMissing"
  shows "models_cache (snd (load_model w s t)) = models_cache s"
  using assms
  by (cases rule: load_model_cases[where s=s and t=t and w=w])
     (simp_all add: load_model_cached load_model_unknown load_model_no_backbone
        load_model_missing)

lemma missing_ckpt_outcome:
  assumes "ckpt_files w (ckpt_path_of s t) = CkptMissing"
    and "map_of TASKS t = Some info" and "map_of (models_cache s) t = None"
    and "from_pretrained_ok w"
  shows "fst (load_model w s t) = Inl FileNotFoundError"
    and "task_outcome w s p t = Inl FileNotFoundError"
  using load_model_missing[OF assms(3,2,4,1)] by (simp_all add: task_outcome_eq)

lemma report_member:
  "t \<in> set ts \<Longrightarrow> l \<in> set (report_of t (out t)) \<Longrightarrow>
   l \<in> set (concat (map (\<lambda>t. report_of t (out t)) ts))"
  by auto

subsection \<open>A missing image\<close>

lemma concat_singletons:
  "\<forall>x \<in> set xs. f x = [g x] \<Longrightarrow> concat (map f xs) = map g xs"
  by (induction xs) simp_all

lemma missing_image_report:
  assumes m: "image_files w p = ImgMissing" and t: "t \<in> set TASKS_keys"
  shows "report_of t (task_outcome w s p t) =
     [case fst (load_model w s t) of
        Inl e \<Rightarrow> (if e = FileNotFoundError then Skipping t else ErrorRunning t e)
      | Inr _ \<Rightarrow> Skipping t]"
proof -
  from t obtain info where i: "map_of TASKS t = Some info" by (auto simp: registered_iff)
  have o: "open_rgb (image_files w p) = Inl FileNotFoundError" by (simp add: m open_rgb_def)
  show ?thesis
    by (cases "fst (load_model w s t)")
       (simp_all add: task_outcome_eq report_of_def outcome_with_bad_image[OF o] i)
qed

lemma load_model_only_fnf:
  assumes "from_pretrained_ok w" and "ckpt_files w (ckpt_path_of s t) \<noteq> CkptCorrupt"
    and "t \<in> set TASKS_keys"
  shows "(case fst (load_model w s t) of
        Inl e \<Rightarrow> (if e = FileNotFoundError then Skipping t else ErrorRunning t e)
      | Inr _ \<Rightarrow> Skipping t) = Skipping t"
  using assms
  by (cases rule: load_model_cases[where s=s and t=t and w=w])
     (simp_all add: load_model_cached load_model_unknown load_model_missing load_model_fresh
        registered_iff)

subsection \<open>Row-major indices of the token grid\<close>

lemma grid_index_less: "y < h \<Longrightarrow> x < w \<Longrightarrow> y * w + x < h * (w::nat)"
proof -
  assume y: "y < h" and x: "x < w"
  have "y * w + x < y * w + w" using x by simp
  also have "\<dots> = Suc y * w" by simp
  also have "\<dots> \<le> h * w" using y by (intro mult_le_mono1) simp
  finally show ?thesis .
qed

lemma row_major_split:
  assumes c: "c < C" and i: "i < T"
  shows "((b * T + i) * C + c) mod C = c"
    and "((b * T + i) * C + c) div C mod T = i"
    and "((b * T + i) * C + c) div (T * C) = (b::nat)"
proof -
  have d: "((b * T + i) * C + c) div C = b * T + i" using c by simp
  show "((b * T + i) * C + c) mod C = c" using c by simp
  show "((b * T + i) * C + c) div C mod T = i" using i by (simp add: d)
  have "((b * T + i) * C + c) div (C * T) = (b * T + i) div T"
    by (simp only: div_mult2_eq d)
  then show "((b * T + i) * C + c) div (T * C) = b" using i by (simp add: mult.commute)
qed

lemma reshape_transform_vit_ok:
  assumes t: "size1 t = Suc (h * w)"
  shows "reshape_transform_vit t h w =
           Inr \<lparr>dim0 = size0 t, dim1 = size2 t, dim2 = h, dim3 = w,
                at4 = (\<lambda>b c y x.
                   (let off = ((b * h + y) * w + x) * size2 t + c
                    in at3 t (off div (h * w * size2 t))
                         (Suc (off div size2 t mod (h * w))) (off mod size2 t)))\<rparr>"
  by (simp add: reshape_transform_vit_def reshape4_def slice_from1_def t
        transpose_1_2_def transpose_2_3_def mult.assoc)

lemma reshape_transform_vit_elem:
  assumes t: "size1 t = Suc (h * w)"
    and b: "b < size0 t" and c: "c < size2 t" and y: "y < h" and x: "x < w"
  shows "at4 (projr (reshape_transform_vit t h w)) b c y x = at3 t b (Suc (y * w + x)) c"
proof -
  define off where "off = ((b * h + y) * w + x) * size2 t + c"
  have i: "y * w + x < h * w" using y x by (rule grid_index_less)
  have e: "off = (b * (h * w) + (y * w + x)) * size2 t + c"
    by (simp add: off_def algebra_simps)
  have m: "off mod size2 t = c" "off div size2 t mod (h * w) = y * w + x"
    "off div (h * w * size2 t) = b"
    unfolding e by (rule row_major_split[OF c i])+
  have "at4 (projr (reshape_transform_vit t h w)) b c y x =
          at3 t (off div (h * w * size2 t)) (Suc (off div size2 t mod (h * w))) (off mod size2 t)"
    unfolding reshape_transform_vit_ok[OF t] off_def
    by (simp only: sum.sel tensor4.select_convs Let_def)
  then show ?thesis by (simp only: m)
qed

subsection \<open>Backbone objects\<close>

lemma demo_reachable_Age: "reachable demo_api_Age"
proof -
  have "reachable demo_api" unfolding demo_api_def by (rule reachable.init)
  then have "reachable (snd (load_model demo_world demo_api ''Age''))" by (rule reachable.load)
  then show ?thesis by (simp add: demo_load_Age)
qed

lemma load_model_backbones_hit:
  "map_of (models_cache s) t \<noteq> None \<Longrightarrow> backbones (snd (load_model w s t)) = backbones s"
  by (auto simp: load_model_cached)

lemma load_model_backbones_miss:
  assumes "map_of (models_cache s) t = None" and "map_of TASKS t \<noteq> None"
    and "from_pretrained_ok w"
  shows "backbones (snd (load_model w s t)) = backbones s @ [next_ref s]"
  using assms
  by (cases rule: load_model_cases[where s=s and t=t and w=w])
     (simp_all add: load_model_missing load_model_corrupt load_model_fresh)

subsection \<open>Softmax, arg-max and decoding\<close>



lemma length_softmax_real [simp]: "length (softmax_real xs) = length xs"
  by (simp add: softmax_real_def)






lemma length_softmax [simp]: "length (softmax xs) = length xs"
  by (cases xs) (simp_all add: softmax_def Let_def)















section \<open>The claims\<close>

subsection \<open>Unknown task names\<close>

text \<open>
  C9. For every task name that is not in the registry, \<open>load_model\<close>, and hence
  \<open>predict_and_explain\<close>, raises the \<open>ValueError\<close> for an unknown task (the spec's
  \<open>InvalidTaskError\<close>) and leaves the API object exactly as it was: nothing is inserted
  into the model cache, nothing is constructed or read. This holds in every state the
  object can reach from its constructor.
\<close>

theorem unknown_task_rejected:
  assumes "reachable s" and "map_of TASKS task_name = None"
  shows "load_model w s task_name = (Inl (ValueError (''Unknown task: '' @ task_name)), s) \<and>
         predict_and_explain w s img_path task_name =
           (Inl (ValueError (''Unknown task: '' @ task_name)), s)"
proof -
  have u: "map_of (models_cache s) task_name = None"
    using assms by (simp add: inv_unknown_uncached reachable_inv)
  have l: "load_model w s task_name = (Inl (ValueError (''Unknown task: '' @ task_name)), s)"
    using u assms(2) by (rule load_model_unknown)
  show ?thesis by (simp add: l predict_and_explain_def)
qed

theorem unknown_task_rejected_witness:
  "reachable demo_api \<and> map_of TASKS ''Glaucoma'' = None \<and>
   load_model demo_world demo_api ''Glaucoma'' =
     (Inl (ValueError ''Unknown task: Glaucoma''), demo_api) \<and>
   predict_and_explain demo_world demo_api ''scan.jpg'' ''Glaucoma'' =
     (Inl (ValueError ''Unknown task: Glaucoma''), demo_api)"
proof -
  have r: "reachable demo_api" unfolding demo_api_def by (rule reachable.init)
  have n: "map_of TASKS ''Glaucoma'' = None" by (simp add: TASKS_def)
  show ?thesis
    using r n unknown_task_rejected[OF r n, of demo_world "''scan.jpg''"] by simp
qed

subsection \<open>Loading twice\<close>

text \<open>
  C3. Once \<open>load_model\<close> has returned a model for a task, a second call returns the same
  instance and changes nothing (whatever the files look like by then), so it reads no
  checkpoint: over both calls exactly one checkpoint is read, the task's own, when the
  task was not cached before the first call, and none when it was.
\<close>

theorem load_model_idempotent:
  assumes "load_model w s task_name = (Inr m, s1)"
  shows "load_model w' s1 task_name = (Inr m, s1) \<and>
         (map_of (models_cache s) task_name = None \<longrightarrow>
            torch_loads (snd (load_model w' s1 task_name)) =
              torch_loads s @ [ckpt_path_of s task_name]) \<and>
         (map_of (models_cache s) task_name \<noteq> None \<longrightarrow>
            torch_loads (snd (load_model w' s1 task_name)) = torch_loads s)"
proof -
  have c: "map_of (models_cache s1) task_name = Some m \<and>
           (map_of (models_cache s) task_name = None \<longrightarrow>
              torch_loads s1 = torch_loads s @ [ckpt_path_of s task_name]) \<and>
           (map_of (models_cache s) task_name \<noteq> None \<longrightarrow> torch_loads s1 = torch_loads s)"
    using assms
    by (cases rule: load_model_cases[where s=s and t=task_name and w=w])
       (auto simp: load_model_cached load_model_unknown load_model_no_backbone
          load_model_missing load_model_corrupt load_model_fresh update_conv')
  then have "load_model w' s1 task_name = (Inr m, s1)" by (simp add: load_model_cached)
  with c show ?thesis by simp
qed

theorem load_model_idempotent_witness:
  "load_model demo_world demo_api ''Age'' = (Inr demo_model_Age, demo_api_Age) \<and>
   load_model demo_world_no_ckpt demo_api_Age ''Age'' = (Inr demo_model_Age, demo_api_Age) \<and>
   torch_loads (snd (load_model demo_world_no_ckpt demo_api_Age ''Age'')) =
     [''artifacts/best_model_Age.pth'']"
proof -
  have h: "load_model demo_world demo_api ''Age'' = (Inr demo_model_Age, demo_api_Age)"
    by (simp add: load_defs demo_world_def demo_api_def OcularInferenceAPI_def TASKS_def
          ckpt_path_of_def demo_model_Age_def demo_api_Age_def)
  have e: "map_of (models_cache demo_api) ''Age'' = None"
    by (simp add: demo_api_def OcularInferenceAPI_def)
  have p: "torch_loads demo_api @ [ckpt_path_of demo_api ''Age''] =
           [''artifacts/best_model_Age.pth'']"
    by (simp add: demo_api_def OcularInferenceAPI_def ckpt_path_of_def)
  from load_model_idempotent[OF h, of demo_world_no_ckpt] e p h show ?thesis
    by (simp add: demo_api_Age_def)
qed

subsection \<open>The returned mapping\<close>

text \<open>
  C8. \<open>run_full_profile\<close> returns a mapping whose keys, in iteration order, are exactly
  the tasks for which \<open>predict_and_explain\<close> succeeds, in the order of the registry:
  skipped tasks leave no gap and change no order.
\<close>

theorem result_order_is_registry_order:
  "\<exists>res. fst (run_full_profile w s img_path) = Inr res \<and>
         map fst res = filter (task_succeeds w s img_path) TASKS_keys"
  by (simp add: run_full_profile_eq run_full_profile_keys)

text \<open>
  C7. In the mapping \<open>run_full_profile\<close> returns, every key is a task of the registry, and
  its entry holds both keys, \<open>prediction\<close> and \<open>attention_map\<close>, the latter being the
  heatmap path of that image and task, a file the call has written. No entry is partial.
\<close>

theorem result_entries_complete:
  "\<exists>res. fst (run_full_profile w s img_path) = Inr res \<and>
     (\<forall>(task, entry) \<in> set res.
        task \<in> set TASKS_keys \<and>
        (\<exists>pred. entry = [(''prediction'', Prediction pred),
                          (''attention_map'', PathStr (cam_save_path w img_path task))]) \<and>
        cam_save_path w img_path task \<in> set (savefig_calls (snd (run_full_profile w s img_path))))"
proof -
  let ?res = "concat (map (\<lambda>t. entries_of t (task_outcome w s img_path t)) TASKS_keys)"
  have "task \<in> set TASKS_keys \<and>
        (\<exists>pred. entry = [(''prediction'', Prediction pred),
                          (''attention_map'', PathStr (cam_save_path w img_path task))]) \<and>
        cam_save_path w img_path task \<in> set (savefig_calls (snd (run_full_profile w s img_path)))"
    if m: "(task, entry) \<in> set ?res" for task entry
  proof -
    from m obtain pred path where t: "task \<in> set TASKS_keys"
      and o: "task_outcome w s img_path task = Inr (pred, path)"
      and e: "entry = [(''prediction'', Prediction pred), (''attention_map'', PathStr path)]"
      unfolding entries_member by blast
    have p: "path = cam_save_path w img_path task" using o by (rule task_outcome_path)
    have "path \<in> set (concat (map (\<lambda>t. files_of (task_outcome w s img_path t)) TASKS_keys))"
      using t o by (rule files_member)
    then show ?thesis using t e p by (auto simp: run_full_profile_eq)
  qed
  then show ?thesis by (auto simp: run_full_profile_eq)
qed

theorem result_entries_complete_witness:
  "(''Age'', [(''prediction'', Prediction (Scalar (Finite 0))),
              (''attention_map'', PathStr ''artifacts/gradcam_inference/scan_Age_cam.png'')])
     \<in> set (projr (fst (run_full_profile demo_world demo_api ''scan.jpg''))) \<and>
   cam_save_path demo_world ''scan.jpg'' ''Age''
     \<in> set (savefig_calls (snd (run_full_profile demo_world demo_api ''scan.jpg'')))"
proof -
  let ?e = "[(''prediction'', Prediction (Scalar (Finite 0))),
             (''attention_map'', PathStr ''artifacts/gradcam_inference/scan_Age_cam.png'')]"
  have "(''Age'', ?e) \<in> set (concat (map
            (\<lambda>t. entries_of t (task_outcome demo_world demo_api ''scan.jpg'' t)) TASKS_keys))"
    unfolding entries_member using Age_registered demo_outcome_Age by simp
  then have m: "(''Age'', ?e) \<in> set (projr (fst (run_full_profile demo_world demo_api ''scan.jpg'')))"
    by (simp only: run_full_profile_eq sum.sel)
  from result_entries_complete[of demo_world demo_api "''scan.jpg''"]
  obtain res where r: "fst (run_full_profile demo_world demo_api ''scan.jpg'') = Inr res"
    and a: "\<forall>(task, entry) \<in> set res.
        task \<in> set TASKS_keys \<and>
        (\<exists>pred. entry = [(''prediction'', Prediction pred),
                          (''attention_map'', PathStr (cam_save_path demo_world ''scan.jpg'' task))]) \<and>
        cam_save_path demo_world ''scan.jpg'' task
          \<in> set (savefig_calls (snd (run_full_profile demo_world demo_api ''scan.jpg'')))"
    by blast
  from m r have "(''Age'', ?e) \<in> set res" by simp
  with a have "cam_save_path demo_world ''scan.jpg'' ''Age''
          \<in> set (savefig_calls (snd (run_full_profile demo_world demo_api ''scan.jpg'')))"
    by blast
  with m show ?thesis by simp
qed

subsection \<open>An unreadable image\<close>

text \<open>
  C1, as the code has it. \<open>run_full_profile\<close> raises nothing, for any input: it always
  returns a mapping. The image is not decoded up front; it is opened inside each task's
  iteration, after \<open>load_model\<close>, and the failure is caught there like any other. When
  the file cannot be identified or is truncated, the call therefore returns the empty
  mapping and writes no heatmap.
\<close>

theorem run_full_profile_never_raises:
  "(\<exists>res. fst (run_full_profile w s img_path) = Inr res) \<and>
   (image_files w img_path = ImgUnidentified \<or> image_files w img_path = ImgTruncated \<longrightarrow>
      fst (run_full_profile w s img_path) = Inr [] \<and>
      savefig_calls (snd (run_full_profile w s img_path)) = savefig_calls s)"
proof (intro conjI impI)
  show "\<exists>res. fst (run_full_profile w s img_path) = Inr res"
    by (simp only: run_full_profile_eq(1)) blast
next
  assume "image_files w img_path = ImgUnidentified \<or> image_files w img_path = ImgTruncated"
  then obtain e where e: "open_rgb (image_files w img_path) = Inl e"
    by (auto simp: open_rgb_def)
  show "fst (run_full_profile w s img_path) = Inr []"
    using e by (rule run_full_profile_bad_image(1))
  show "savefig_calls (snd (run_full_profile w s img_path)) = savefig_calls s"
    using e by (rule run_full_profile_bad_image(2))
qed

theorem run_full_profile_never_raises_witness:
  "image_files (demo_world\<lparr>image_files := (\<lambda>_. ImgTruncated)\<rparr>) ''scan.jpg'' = ImgTruncated \<and>
   fst (run_full_profile (demo_world\<lparr>image_files := (\<lambda>_. ImgTruncated)\<rparr>) demo_api ''scan.jpg'') =
     Inr [] \<and>
   savefig_calls (snd (run_full_profile (demo_world\<lparr>image_files := (\<lambda>_. ImgTruncated)\<rparr>)
     demo_api ''scan.jpg'')) = []"
  using run_full_profile_never_raises
          [of "demo_world\<lparr>image_files := (\<lambda>_. ImgTruncated)\<rparr>" demo_api "''scan.jpg''"]
  by (simp add: demo_api_def OcularInferenceAPI_def)

text \<open>
  C1 as stated fails: on an image that cannot be decoded the call returns the empty
  mapping instead of raising.
\<close>

theorem unreadable_image_returns_empty:
  "fst (run_full_profile demo_world_unreadable demo_api ''scan.jpg'') = Inr []"
  by (rule run_full_profile_bad_image(1)[where e = UnidentifiedImageError])
     (simp add: open_rgb_def demo_world_unreadable_def)

subsection \<open>A missing checkpoint\<close>

text \<open>
  C4. When the checkpoint file of a task is missing, \<open>load_model\<close> leaves the model cache
  as it was: no entry is added, none is removed or changed. For a registered task that is
  not cached yet (and with the pretrained backbone available) the call raises
  \<open>FileNotFoundError\<close>, the spec's \<open>ModelWeightsNotFoundError\<close>; \<open>run_full_profile\<close>
  then prints the skip line for that task, leaves it out of the mapping, and still
  reports every other task that succeeds.
\<close>

theorem missing_checkpoint_skipped:
  assumes miss: "ckpt_files w (ckpt_path_of s task_name) = CkptMissing"
  shows "models_cache (snd (load_model w s task_name)) = models_cache s \<and>
    (map_of TASKS task_name \<noteq> None \<and> map_of (models_cache s) task_name = None \<and>
     from_pretrained_ok w \<longrightarrow>
       fst (load_model w s task_name) = Inl FileNotFoundError \<and>
       (\<exists>res. fst (run_full_profile w s img_path) = Inr res \<and>
          task_name \<notin> fst ` set res \<and>
          (\<forall>t \<in> set TASKS_keys. t \<in> fst ` set res \<longleftrightarrow> task_succeeds w s img_path t)) \<and>
       Skipping task_name \<in> set (console (snd (run_full_profile w s img_path))))"
proof (intro conjI impI)
  show "models_cache (snd (load_model w s task_name)) = models_cache s"
    using miss by (rule missing_ckpt_cache)
next
  assume a: "map_of TASKS task_name \<noteq> None \<and> map_of (models_cache s) task_name = None \<and>
     from_pretrained_ok w"
  then obtain info where i: "map_of TASKS task_name = Some info" by auto
  have c: "map_of (models_cache s) task_name = None" and b: "from_pretrained_ok w"
    using a by simp_all
  show "fst (load_model w s task_name) = Inl FileNotFoundError"
    using miss i c b by (rule missing_ckpt_outcome(1))
  have o: "task_outcome w s img_path task_name = Inl FileNotFoundError"
    using miss i c b by (rule missing_ckpt_outcome(2))
  have r: "task_name \<in> set TASKS_keys" using i by (simp add: registered_iff)
  let ?res = "concat (map (\<lambda>t. entries_of t (task_outcome w s img_path t)) TASKS_keys)"
  have k: "fst ` set ?res = {t \<in> set TASKS_keys. task_succeeds w s img_path t}"
    using arg_cong[OF run_full_profile_keys[of w s img_path], of set] by simp
  have "task_name \<notin> fst ` set ?res" unfolding k by (simp add: task_succeeds_def o)
  moreover have "\<forall>t \<in> set TASKS_keys. t \<in> fst ` set ?res \<longleftrightarrow> task_succeeds w s img_path t"
    unfolding k by simp
  ultimately show "\<exists>res. fst (run_full_profile w s img_path) = Inr res \<and>
          task_name \<notin> fst ` set res \<and>
          (\<forall>t \<in> set TASKS_keys. t \<in> fst ` set res \<longleftrightarrow> task_succeeds w s img_path t)"
    by (simp only: run_full_profile_eq(1)) blast
  have "Skipping task_name \<in> set (report_of task_name (task_outcome w s img_path task_name))"
    by (simp add: o report_of_def)
  with r have "Skipping task_name \<in>
      set (concat (map (\<lambda>t. report_of t (task_outcome w s img_path t)) TASKS_keys))"
    by (rule report_member)
  then show "Skipping task_name \<in> set (console (snd (run_full_profile w s img_path)))"
    by (simp only: run_full_profile_eq(3) set_append) blast
qed

theorem missing_checkpoint_skipped_witness:
  "ckpt_files demo_world_no_ckpt (ckpt_path_of demo_api ''Age'') = CkptMissing \<and>
   map_of TASKS ''Age'' \<noteq> None \<and> map_of (models_cache demo_api) ''Age'' = None \<and>
   from_pretrained_ok demo_world_no_ckpt \<and>
   models_cache (snd (load_model demo_world_no_ckpt demo_api ''Age'')) = [] \<and>
   fst (load_model demo_world_no_ckpt demo_api ''Age'') = Inl FileNotFoundError \<and>
   Skipping ''Age'' \<in> set (console (snd (run_full_profile demo_world_no_ckpt demo_api ''scan.jpg'')))"
proof -
  have a: "ckpt_files demo_world_no_ckpt (ckpt_path_of demo_api ''Age'') = CkptMissing"
    by (simp add: demo_world_no_ckpt_def demo_world_def)
  have b: "map_of TASKS ''Age'' \<noteq> None" by (simp add: TASKS_def)
  have c: "map_of (models_cache demo_api) ''Age'' = None"
    by (simp add: demo_api_def OcularInferenceAPI_def)
  have d: "from_pretrained_ok demo_world_no_ckpt"
    by (simp add: demo_world_no_ckpt_def demo_world_def)
  have e: "models_cache demo_api = []" by (simp add: demo_api_def OcularInferenceAPI_def)
  from missing_checkpoint_skipped[OF a, of "''scan.jpg''"] a b c d e show ?thesis by simp
qed

subsection \<open>A missing image\<close>

text \<open>
  C10. When the image path names no file, \<open>run_full_profile\<close> raises nothing and returns
  the empty mapping, and writes no heatmap. The \<open>FileNotFoundError\<close> of \<open>Image.open\<close>
  is raised inside each iteration, after \<open>load_model\<close>, and is taken by the handler
  written for a missing checkpoint: every task whose model loads is reported by the same
  line as a task whose checkpoint is absent. A task is reported otherwise only when
  \<open>load_model\<close> itself raises something else (no backbone, a corrupt checkpoint); with
  the backbone available and no corrupt checkpoint, the console shows one skip line per
  task, in registry order.
\<close>

theorem missing_image_reported_as_skipped:
  assumes m: "image_files w img_path = ImgMissing"
  shows "fst (run_full_profile w s img_path) = Inr [] \<and>
     savefig_calls (snd (run_full_profile w s img_path)) = savefig_calls s \<and>
     console (snd (run_full_profile w s img_path)) =
       console s @ map (\<lambda>t. case fst (load_model w s t) of
                               Inl e \<Rightarrow> (if e = FileNotFoundError then Skipping t
                                          else ErrorRunning t e)
                             | Inr _ \<Rightarrow> Skipping t) TASKS_keys \<and>
     (from_pretrained_ok w \<and>
      (\<forall>t \<in> set TASKS_keys. ckpt_files w (ckpt_path_of s t) \<noteq> CkptCorrupt) \<longrightarrow>
        console (snd (run_full_profile w s img_path)) = console s @ map Skipping TASKS_keys)"
proof -
  let ?line = "\<lambda>t. case fst (load_model w s t) of
                      Inl e \<Rightarrow> (if e = FileNotFoundError then Skipping t else ErrorRunning t e)
                    | Inr _ \<Rightarrow> Skipping t"
  have o: "open_rgb (image_files w img_path) = Inl FileNotFoundError"
    by (simp add: m open_rgb_def)
  have "concat (map (\<lambda>t. report_of t (task_outcome w s img_path t)) TASKS_keys) =
        map ?line TASKS_keys"
    by (rule concat_singletons) (simp add: missing_image_report[OF m])
  then have c: "console (snd (run_full_profile w s img_path)) = console s @ map ?line TASKS_keys"
    by (simp only: run_full_profile_eq(3))
  have d: "map ?line TASKS_keys = map Skipping TASKS_keys"
    if "from_pretrained_ok w \<and>
        (\<forall>t \<in> set TASKS_keys. ckpt_files w (ckpt_path_of s t) \<noteq> CkptCorrupt)"
    by (rule map_cong) (use that in \<open>simp_all add: load_model_only_fnf\<close>)
  show ?thesis
    using run_full_profile_bad_image[OF o, of s] c d by simp
qed

theorem missing_image_reported_as_skipped_witness:
  "image_files demo_world_no_image ''gone.jpg'' = ImgMissing \<and>
   fst (run_full_profile demo_world_no_image demo_api ''gone.jpg'') = Inr [] \<and>
   console (snd (run_full_profile demo_world_no_image demo_api ''gone.jpg'')) =
     map Skipping TASKS_keys"
proof -
  have a: "image_files demo_world_no_image ''gone.jpg'' = ImgMissing"
    by (simp add: demo_world_no_image_def)
  have b: "from_pretrained_ok demo_world_no_image \<and>
      (\<forall>t \<in> set TASKS_keys.
         ckpt_files demo_world_no_image (ckpt_path_of demo_api t) \<noteq> CkptCorrupt)"
    by (simp add: demo_world_no_image_def demo_world_def)
  have c: "console demo_api = []" by (simp add: demo_api_def OcularInferenceAPI_def)
  note th = missing_image_reported_as_skipped[OF a, of demo_api]
  from th have e: "fst (run_full_profile demo_world_no_image demo_api ''gone.jpg'') = Inr []"
    by blast
  from th b have "console (snd (run_full_profile demo_world_no_image demo_api ''gone.jpg'')) =
     console demo_api @ map Skipping TASKS_keys"
    by blast
  with a e c show ?thesis by simp
qed

subsection \<open>From tokens to a grid\<close>

text \<open>
  C6, as the code has it. \<open>reshape_transform_vit\<close> drops the first token and reshapes
  the remaining tokens of a [batch, tokens, channels] tensor into a grid of \<open>height\<close>
  rows and \<open>width\<close> columns, transposed to (batch, channel, height, width): the element
  at (b, c, y, x) is channel c of token 1 + y * width + x of batch b. The grid sides are
  the parameters \<open>height\<close> and \<open>width\<close>, which GradCAM++ leaves at their defaults
  14 and 14; they are not inferred from the token count. When the element counts differ
  (any token count other than 1 + height * width, for a tensor with elements) the
  reshape raises.
\<close>

theorem reshape_transform_vit_fixed_grid:
  "(size1 t = Suc (height * width) \<longrightarrow>
      (\<exists>r. reshape_transform_vit t height width = Inr r \<and>
           dim0 r = size0 t \<and> dim1 r = size2 t \<and> dim2 r = height \<and> dim3 r = width \<and>
           (\<forall>b < size0 t. \<forall>c < size2 t. \<forall>y < height. \<forall>x < width.
              at4 r b c y x = at3 t b (Suc (y * width + x)) c))) \<and>
   (size0 t * (size1 t - 1) * size2 t \<noteq> size0 t * height * width * size2 t \<longrightarrow>
      reshape_transform_vit t height width = Inl RuntimeError) \<and>
   reshape_transform_vit_default t = reshape_transform_vit t 14 14"
proof (intro conjI impI)
  assume t: "size1 t = Suc (height * width)"
  let ?r = "projr (reshape_transform_vit t height width)"
  have r: "reshape_transform_vit t height width = Inr ?r"
    by (simp add: reshape_transform_vit_ok[OF t])
  have d: "dim0 ?r = size0 t \<and> dim1 ?r = size2 t \<and> dim2 ?r = height \<and> dim3 ?r = width"
    by (simp add: reshape_transform_vit_ok[OF t])
  have "\<forall>b < size0 t. \<forall>c < size2 t. \<forall>y < height. \<forall>x < width.
              at4 ?r b c y x = at3 t b (Suc (y * width + x)) c"
    using reshape_transform_vit_elem[OF t] by blast
  with r d show "\<exists>r. reshape_transform_vit t height width = Inr r \<and>
           dim0 r = size0 t \<and> dim1 r = size2 t \<and> dim2 r = height \<and> dim3 r = width \<and>
           (\<forall>b < size0 t. \<forall>c < size2 t. \<forall>y < height. \<forall>x < width.
              at4 r b c y x = at3 t b (Suc (y * width + x)) c)"
    by blast
next
  assume "size0 t * (size1 t - 1) * size2 t \<noteq> size0 t * height * width * size2 t"
  then show "reshape_transform_vit t height width = Inl RuntimeError"
    by (simp add: reshape_transform_vit_def reshape4_def slice_from1_def)
next
  show "reshape_transform_vit_default t = reshape_transform_vit t 14 14"
    by (simp add: reshape_transform_vit_default_def)
qed

theorem reshape_transform_vit_fixed_grid_witness:
  "size1 demo_tokens5 = Suc (2 * 2) \<and>
   (\<exists>r. reshape_transform_vit demo_tokens5 2 2 = Inr r \<and> dim2 r = 2 \<and> dim3 r = 2 \<and>
        at4 r 0 0 1 1 = 4) \<and>
   size0 demo_tokens5 * (size1 demo_tokens5 - 1) * size2 demo_tokens5 \<noteq>
     size0 demo_tokens5 * 14 * 14 * size2 demo_tokens5 \<and>
   reshape_transform_vit demo_tokens5 14 14 = Inl RuntimeError"
proof -
  have a: "size1 demo_tokens5 = Suc (2 * 2)" by (simp add: demo_tokens5_def)
  have b: "size0 demo_tokens5 * (size1 demo_tokens5 - 1) * size2 demo_tokens5 \<noteq>
     size0 demo_tokens5 * 14 * 14 * size2 demo_tokens5"
    by (simp add: demo_tokens5_def)
  have s: "(0::nat) < size0 demo_tokens5" "(0::nat) < size2 demo_tokens5"
    by (simp_all add: demo_tokens5_def)
  have v: "at3 demo_tokens5 0 (Suc (1 * 2 + 1)) 0 = 4" by (simp add: demo_tokens5_def)
  note th = reshape_transform_vit_fixed_grid[of demo_tokens5]
  from th[of 2 2] a obtain r where r: "reshape_transform_vit demo_tokens5 2 2 = Inr r"
    "dim2 r = 2" "dim3 r = 2"
    and e: "\<forall>b < size0 demo_tokens5. \<forall>c < size2 demo_tokens5. \<forall>y < 2. \<forall>x < 2.
              at4 r b c y x = at3 demo_tokens5 b (Suc (y * 2 + x)) c"
    by blast
  from e s have "at4 r 0 0 1 1 = at3 demo_tokens5 0 (Suc (1 * 2 + 1)) 0" by simp
  with v have "at4 r 0 0 1 1 = 4" by simp
  moreover from th[of 14 14] b have "reshape_transform_vit demo_tokens5 14 14 = Inl RuntimeError"
    by blast
  ultimately show ?thesis using a b r by blast
qed

text \<open>
  C6 as stated fails: five tokens (one summary token and four patch tokens, a 2 by 2
  grid) are not reshaped to a grid inferred from their number; the call raises.
\<close>

theorem token_count_not_inferred:
  "reshape_transform_vit_default demo_tokens5 = Inl RuntimeError"
  by (simp add: reshape_transform_vit_default_def reshape_transform_vit_def reshape4_def
        slice_from1_def demo_tokens5_def)

subsection \<open>One backbone per cached model\<close>

text \<open>
  C2, as the code has it. The backbone is built lazily, but not once: a fresh API object
  has built none, a cache hit builds none, and every cache miss of \<open>load_model\<close> for a
  registered task constructs a new \<open>FoundationalCVModel\<close>, a backbone object that did
  not exist before (also when the checkpoint then turns out to be missing). In every
  reachable state each cached model wraps a backbone that was built, and no two cached
  models wrap the same one.
\<close>

theorem backbone_built_per_cache_miss:
  assumes r: "reachable s"
  shows "backbones (OcularInferenceAPI cdir) = [] \<and>
    distinct (map (\<lambda>e. backbone_ref (snd e)) (models_cache s)) \<and>
    (\<forall>e \<in> set (models_cache s). backbone_ref (snd e) \<in> set (backbones s)) \<and>
    (map_of (models_cache s) task_name \<noteq> None \<longrightarrow>
       backbones (snd (load_model w s task_name)) = backbones s) \<and>
    (map_of (models_cache s) task_name = None \<and> map_of TASKS task_name \<noteq> None \<and>
     from_pretrained_ok w \<longrightarrow>
       backbones (snd (load_model w s task_name)) = backbones s @ [next_ref s] \<and>
       next_ref s \<notin> set (backbones s))"
proof -
  have inv: "api_inv s" using r by (rule reachable_inv)
  have "next_ref s \<notin> set (backbones s)" using inv unfolding api_inv_def by blast
  moreover have "distinct (map (\<lambda>e. backbone_ref (snd e)) (models_cache s))"
    using inv unfolding api_inv_def by blast
  moreover have "\<forall>e \<in> set (models_cache s). backbone_ref (snd e) \<in> set (backbones s)"
    using inv unfolding api_inv_def by blast
  ultimately show ?thesis
    by (simp add: OcularInferenceAPI_def load_model_backbones_hit load_model_backbones_miss)
qed

theorem backbone_built_per_cache_miss_witness:
  "reachable demo_api_Age \<and>
   map_of (models_cache demo_api_Age) ''Gender'' = None \<and> map_of TASKS ''Gender'' \<noteq> None \<and>
   from_pretrained_ok demo_world \<and>
   backbones (snd (load_model demo_world demo_api_Age ''Gender'')) = [0, 2]"
proof -
  have a: "map_of (models_cache demo_api_Age) ''Gender'' = None"
    by (simp add: demo_api_Age_def)
  have b: "map_of TASKS ''Gender'' \<noteq> None" by (simp add: TASKS_def)
  have c: "from_pretrained_ok demo_world" by (simp add: demo_world_def)
  have d: "backbones demo_api_Age @ [next_ref demo_api_Age] = [0, 2]"
    by (simp add: demo_api_Age_def)
  from backbone_built_per_cache_miss[OF demo_reachable_Age, of _ "''Gender''" demo_world]
    a b c
  have "backbones (snd (load_model demo_world demo_api_Age ''Gender'')) =
        backbones demo_api_Age @ [next_ref demo_api_Age]"
    by blast
  with d demo_reachable_Age a b c show ?thesis by simp
qed

text \<open>
  C2 as stated fails: after loading two tasks on a fresh object two backbones have been
  built, and the two cached models reference different ones.
\<close>

theorem backbone_not_shared:
  "backbones (snd (load_model demo_world demo_api_Age ''Gender'')) = [0, 2] \<and>
   map_option backbone_ref
     (map_of (models_cache (snd (load_model demo_world demo_api_Age ''Gender''))) ''Age'') =
     Some 0 \<and>
   map_option backbone_ref
     (map_of (models_cache (snd (load_model demo_world demo_api_Age ''Gender''))) ''Gender'') =
     Some 2 \<and>
   load_model demo_world demo_api ''Age'' = (Inr demo_model_Age, demo_api_Age)"
  by (simp add: demo_load_Age)
     (simp add: load_defs demo_world_def demo_api_Age_def demo_model_Age_def TASKS_def
        ckpt_path_of_def)

subsection \<open>Decoding by task kind\<close>




end
